theory Spec2Isabelle
  imports Complex_Main
begin

section \<open>Data model of the digital twin\<close>

text \<open>
  The embedding follows \<^verbatim>\<open>src/api/digital_twin_server.py\<close>, class
  \<^verbatim>\<open>IndianEHVSubstationDigitalTwin\<close>. Python floats are modelled as reals, Python
  strings as \<open>string\<close>, the asset dictionary (insertion ordered, never resized after
  start-up) as an association list read with \<open>map_of\<close>. Everything the twin obtains from
  outside in one loop iteration (the solver's answer, the readings of the OpenDSS engine, the
  random draws, the clock) is an input of the model, collected in the record
  \<open>tick_env\<close>.

  Names are those of the source, with the leading underscore of the private methods dropped.
  The field \<^verbatim>\<open>power\<close> of an asset is \<open>power_value\<close> here, and the
  \<^verbatim>\<open>timestamp\<close> fields of the metrics and of a fault record are
  \<open>metrics_timestamp\<close> and \<open>fault_timestamp\<close>, since field names of different records
  must differ.
\<close>

record AssetStatus =
  asset_id :: string
  asset_type :: string
  status :: string
  voltage :: real
  current :: real
  power_value :: real
  temperature :: real
  timestamp :: string
  health_score :: real

record SubstationMetrics =
  total_power :: real
  total_load :: real
  efficiency :: real
  voltage_stability :: real
  frequency :: real
  metrics_timestamp :: string
  grid_connection :: bool
  fault_count :: int

record FaultAnalysis =
  fault_type :: string
  fault_location :: string
  fault_impedance :: real
  fault_current :: real
  protection_operation :: bool
  clearance_time :: real
  fault_timestamp :: string

text \<open>
  The dictionary returned by \<^verbatim>\<open>LoadFlowAnalysis.solve()\<close>: one optional entry per
  key that the twin reads; \<open>None\<close> is a missing key.
\<close>

record dss_results =
  converged :: "bool option"
  total_power_kw :: "real option"
  total_power_kvar :: "real option"
  total_losses_mw :: "real option"
  voltage_400kv :: "real option"
  voltage_220kv :: "real option"
  max_voltage_pu :: "real option"
  min_voltage_pu :: "real option"

type_synonym client = nat

type_synonym asset_dict = "(string \<times> AssetStatus) list"

record update_data =
  msg_type :: string
  msg_assets :: asset_dict
  msg_metrics :: SubstationMetrics
  msg_timestamp :: string

record twin =
  assets :: asset_dict
  metrics :: SubstationMetrics
  faults :: "FaultAnalysis list"
  websocket_clients :: "client list"
  opendss_results :: dss_results
  is_running :: bool

text \<open>
  What one iteration of the simulation loop receives from its collaborators.
  \<open>solve\<close> is \<open>None\<close> when \<^verbatim>\<open>self.load_flow.solve()\<close> raises;
  \<open>element_powers\<close> and \<open>load_reading\<close> are \<open>None\<close> when the guarded OpenDSS
  calls for that element raise; \<open>jitter\<close> holds the \<^verbatim>\<open>np.random.normal\<close> draw made
  for each asset.
\<close>

record tick_env =
  solve :: "dss_results option"
  dss_available :: bool
  element_powers :: "string \<Rightarrow> real list option"
  load_reading :: "string \<Rightarrow> (real list \<times> real list) option"
  jitter :: "string \<Rightarrow> real"
  frequency_noise :: real
  time_assets :: string
  time_metrics :: string
  time_broadcast :: string

datatype error = ValueError string

record response =
  resp_status :: string
  resp_message :: string

section \<open>Dictionary helpers\<close>

text \<open>\<^verbatim>\<open>d.get(key, default)\<close>.\<close>

definition dict_get :: "'a option \<Rightarrow> 'a \<Rightarrow> 'a" where
  "dict_get v d = (case v of None \<Rightarrow> d | Some x \<Rightarrow> x)"

text \<open>
  \<^verbatim>\<open>if k in self.assets: asset = self.assets[k]; ...mutate asset...\<close>: the entry found
  by the lookup is rewritten in place, a missing key leaves the dictionary as it is.
\<close>

fun modify_asset :: "string \<Rightarrow> (AssetStatus \<Rightarrow> AssetStatus) \<Rightarrow> asset_dict \<Rightarrow> asset_dict" where
  "modify_asset k f [] = []"
| "modify_asset k f ((k', a) # rest) =
     (if k' = k then (k', f a) # rest else (k', a) # modify_asset k f rest)"

section \<open>Start-up manifest\<close>

definition circuit_breaker_ids :: "string list" where
  "circuit_breaker_ids = [''CB_1'', ''CB_2'', ''CB_3'', ''CB_4'', ''CB_5'']"

definition power_transformer_ids :: "string list" where
  "power_transformer_ids = [''TX1_400_220'', ''TX2_400_220'']"

definition distribution_transformer_ids :: "string list" where
  "distribution_transformer_ids = [''DTX1_220_33'', ''DTX2_220_33'']"

definition industrial_load_ids :: "string list" where
  "industrial_load_ids = [''IndustrialLoad1'', ''IndustrialLoad2'']"

definition new_asset ::
  "string \<Rightarrow> string \<Rightarrow> string \<Rightarrow> real \<Rightarrow> real \<Rightarrow> real \<Rightarrow> real \<Rightarrow> string \<Rightarrow> real \<Rightarrow> AssetStatus" where
  "new_asset i ty st v c p t ts h =
     \<lparr>asset_id = i, asset_type = ty, status = st, voltage = v, current = c, power_value = p,
      temperature = t, timestamp = ts, health_score = h\<rparr>"

definition setup_assets :: "string \<Rightarrow> dss_results \<Rightarrow> asset_dict" where
  "setup_assets now res =
     (let v400 = dict_get (voltage_400kv res) 400;
          v220 = dict_get (voltage_220kv res) 220;
          total_kw = \<bar>dict_get (total_power_kw res) 0\<bar>;
          conv = dict_get (converged res) True;
          st = (if conv then ''healthy'' else ''warning'');
          tx_power_kw = total_kw / 2;
          tx_current = (if v400 > 0 then tx_power_kw / (v400 * 1.732) else 0);
          load_factor = tx_power_kw / 315000;
          tx_temp = 45 + load_factor * 25;
          dtx_power_kw = total_kw / 4;
          dtx_current = (if v220 > 0 then dtx_power_kw / (v220 * 1.732) else 0);
          dtx_load_factor = dtx_power_kw / 50000;
          dtx_temp = 50 + dtx_load_factor * 20;
          load1_power_kw = 15000;
          load2_power_kw = 12000;
          load_voltage_kv = 33
      in [(''Grid400kV'',
            new_asset ''Grid400kV'' ''GridConnection'' st v400
              (if v400 > 0 then total_kw / (v400 * 1.732) else 0) (total_kw / 1000) 25 now 100)]
         @ map (\<lambda>i. (i, new_asset i ''PowerTransformer'' st v400 tx_current tx_power_kw tx_temp now 95))
             power_transformer_ids
         @ map (\<lambda>i. (i, new_asset i ''DistributionTransformer'' st v220 dtx_current dtx_power_kw
                        dtx_temp now 90))
             distribution_transformer_ids
         @ map (\<lambda>i. (i, new_asset i ''CircuitBreaker'' ''healthy'' 0 0 0 30 now 98))
             circuit_breaker_ids
         @ [(''IndustrialLoad1'',
              new_asset ''IndustrialLoad1'' ''IndustrialLoad'' ''healthy'' load_voltage_kv
                (load1_power_kw / (load_voltage_kv * 1.732)) load1_power_kw
                (35 + load1_power_kw / 20000 * 10) now 85),
            (''IndustrialLoad2'',
              new_asset ''IndustrialLoad2'' ''IndustrialLoad'' ''healthy'' load_voltage_kv
                (load2_power_kw / (load_voltage_kv * 1.732)) load2_power_kw
                (35 + load2_power_kw / 20000 * 10) now 85)])"

text \<open>The fields set by \<^verbatim>\<open>__init__\<close>, after the initial solve returned \<open>res\<close>.\<close>

definition init_twin :: "string \<Rightarrow> dss_results \<Rightarrow> twin" where
  "init_twin now res =
     \<lparr>assets = setup_assets now res,
      metrics = \<lparr>total_power = 0, total_load = 0, efficiency = 0, voltage_stability = 0,
                 frequency = 50, metrics_timestamp = [], grid_connection = True,
                 fault_count = 0\<rparr>,
      faults = [],
      websocket_clients = [],
      opendss_results = res,
      is_running = False\<rparr>"

definition start_simulation :: "twin \<Rightarrow> twin" where
  "start_simulation s = (if \<not> is_running s then s\<lparr>is_running := True\<rparr> else s)"

definition stop_simulation :: "twin \<Rightarrow> twin" where
  "stop_simulation s = s\<lparr>is_running := False\<rparr>"

section \<open>Per-tick asset update\<close>

text \<open>
  One definition per block of \<^verbatim>\<open>_update_asset_statuses\<close>, each the net effect of the
  block's assignments on one asset. The OpenDSS calls sit in inner \<^verbatim>\<open>try\<close> blocks
  whose handlers assign the fallback values, so the model has the three cases of each block:
  a usable reading, a reading too short, and a raise. Nothing else in the method can raise
  (every lookup is guarded by \<^verbatim>\<open>in\<close>, every division by a test of the divisor), so the
  outer handler has no case of its own.
\<close>

definition update_grid :: "tick_env \<Rightarrow> dss_results \<Rightarrow> AssetStatus \<Rightarrow> AssetStatus" where
  "update_grid env res a =
     (let v = dict_get (voltage_400kv res) 400;
          p = \<bar>dict_get (total_power_kw res) 0\<bar> / 1000;
          c = (if v > 0 then p * 1000 / (v * 1.732) else 0)
      in a\<lparr>voltage := v, power_value := p, current := c, temperature := 25,
            status := (if dict_get (converged res) False then ''healthy'' else ''warning''),
            timestamp := time_assets env\<rparr>)"

definition update_power_transformer ::
  "tick_env \<Rightarrow> dss_results \<Rightarrow> string \<Rightarrow> AssetStatus \<Rightarrow> AssetStatus" where
  "update_power_transformer env res transformer_id a =
     (let estimate = \<bar>dict_get (total_power_kw res) 0\<bar> / 2000;
          p = (case element_powers env (''Transformer.'' @ transformer_id) of
                 Some powers \<Rightarrow> if length powers \<ge> 2 then \<bar>powers ! 0\<bar> else estimate
               | None \<Rightarrow> estimate);
          v = dict_get (voltage_400kv res) 400;
          c = (if v > 0 then p / (v * 1.732) else 0);
          base_temp = 45;
          load_mva = p / 1000;
          load_factor = min (load_mva / 315) 1;
          temp = base_temp + load_factor * 35 + jitter env transformer_id;
          h = health_score a
      in (if temp > 85 then
            a\<lparr>power_value := p, voltage := v, current := c, temperature := temp,
              health_score := max 0 (h - 0.5), status := ''fault'', timestamp := time_assets env\<rparr>
          else if temp > 70 then
            a\<lparr>power_value := p, voltage := v, current := c, temperature := temp,
              health_score := max 60 (h - 0.1), status := ''warning'', timestamp := time_assets env\<rparr>
          else
            a\<lparr>power_value := p, voltage := v, current := c, temperature := temp,
              health_score := min 100 (h + 0.05), status := ''healthy'',
              timestamp := time_assets env\<rparr>))"

definition update_distribution_transformer ::
  "tick_env \<Rightarrow> dss_results \<Rightarrow> string \<Rightarrow> AssetStatus \<Rightarrow> AssetStatus" where
  "update_distribution_transformer env res transformer_id a =
     (let estimate = \<bar>dict_get (total_power_kw res) 0\<bar> / 4000;
          p = (case element_powers env (''Transformer.'' @ transformer_id) of
                 Some powers \<Rightarrow> if length powers \<ge> 2 then \<bar>powers ! 0\<bar> else estimate
               | None \<Rightarrow> estimate);
          v = dict_get (voltage_220kv res) 220;
          c = (if v > 0 then p / (v * 1.732) else 0);
          base_temp = 50;
          load_mva = p / 1000;
          load_factor = min (load_mva / 50) 1;
          temp = base_temp + load_factor * 30 + jitter env transformer_id;
          h = health_score a
      in (if temp > 90 then
            a\<lparr>power_value := p, voltage := v, current := c, temperature := temp,
              health_score := max 0 (h - 0.5), status := ''fault'', timestamp := time_assets env\<rparr>
          else if temp > 75 then
            a\<lparr>power_value := p, voltage := v, current := c, temperature := temp,
              health_score := max 60 (h - 0.1), status := ''warning'', timestamp := time_assets env\<rparr>
          else
            a\<lparr>power_value := p, voltage := v, current := c, temperature := temp,
              health_score := min 100 (h + 0.05), status := ''healthy'',
              timestamp := time_assets env\<rparr>))"

definition update_circuit_breaker :: "tick_env \<Rightarrow> string \<Rightarrow> AssetStatus \<Rightarrow> AssetStatus" where
  "update_circuit_breaker env cb_id a =
     (let temp = 30 + jitter env cb_id;
          h = health_score a
      in (if status a = ''fault'' then
            a\<lparr>temperature := temp, health_score := max 0 (h - 1), timestamp := time_assets env\<rparr>
          else
            a\<lparr>temperature := temp, health_score := min 100 (h + 0.05), status := ''healthy'',
              timestamp := time_assets env\<rparr>))"

definition update_industrial_load :: "tick_env \<Rightarrow> string \<Rightarrow> AssetStatus \<Rightarrow> AssetStatus" where
  "update_industrial_load env load_id a =
     (let base_power = (if CHR ''1'' \<in> set load_id then 15000 else 12000);
          fallback_current = base_power / (33 * 1.732);
          (p, c, v) =
            (case load_reading env (''Load.'' @ load_id) of
               None \<Rightarrow> (base_power, fallback_current, 33)
             | Some (powers, voltages) \<Rightarrow>
                 (if length powers \<ge> 2 then \<bar>powers ! 0\<bar> else base_power,
                  if length powers \<ge> 2
                  then (if powers ! 0 \<noteq> 0 then \<bar>powers ! 0\<bar> / (33 * 1.732) else 0)
                  else fallback_current,
                  if length voltages \<ge> 1 then voltages ! 0 / 1000 else 33));
          base_temp = 35;
          power_factor = p / 20000;
          temp = base_temp + power_factor * 15 + jitter env load_id;
          h = health_score a
      in (if p > 18000 then
            a\<lparr>power_value := p, current := c, voltage := v, temperature := temp,
              status := ''warning'', health_score := max 70 (h - 0.1),
              timestamp := time_assets env\<rparr>
          else
            a\<lparr>power_value := p, current := c, voltage := v, temperature := temp,
              status := ''healthy'', health_score := min 100 (h + 0.05),
              timestamp := time_assets env\<rparr>))"

definition update_asset_statuses :: "tick_env \<Rightarrow> twin \<Rightarrow> twin" where
  "update_asset_statuses env s =
     (if \<not> dss_available env then s
      else
        let res = opendss_results s;
            d0 = assets s;
            d1 = modify_asset ''Grid400kV'' (update_grid env res) d0;
            d2 = fold (\<lambda>i. modify_asset i (update_power_transformer env res i))
                   power_transformer_ids d1;
            d3 = fold (\<lambda>i. modify_asset i (update_distribution_transformer env res i))
                   distribution_transformer_ids d2;
            d4 = fold (\<lambda>i. modify_asset i (update_circuit_breaker env i)) circuit_breaker_ids d3;
            d5 = fold (\<lambda>i. modify_asset i (update_industrial_load env i)) industrial_load_ids d4
        in s\<lparr>assets := d5\<rparr>)"

section \<open>Metrics, analysis, broadcast\<close>

definition update_substation_metrics :: "tick_env \<Rightarrow> twin \<Rightarrow> twin" where
  "update_substation_metrics env s =
     (let res = opendss_results s;
          total_kw = \<bar>dict_get (total_power_kw res) 0\<bar>;
          losses_mw = dict_get (total_losses_mw res) 0;
          total_power_mw = total_kw / 1000;
          input_power_mw = total_power_mw + losses_mw;
          max_pu = dict_get (max_voltage_pu res) 1;
          min_pu = dict_get (min_voltage_pu res) 1;
          voltage_deviation = (max_pu - min_pu) * 100
      in s\<lparr>metrics := (metrics s)
            \<lparr>efficiency := (if input_power_mw > 0 then total_power_mw / input_power_mw * 100 else 0),
             voltage_stability := max 0 (100 - voltage_deviation),
             total_power := total_power_mw,
             total_load := total_power_mw,
             metrics_timestamp := time_metrics env,
             frequency := 50 + frequency_noise env,
             grid_connection :=
               (dict_get (converged res) False \<and>
                list_all (\<lambda>(k, a). status a \<noteq> ''fault'')
                  (filter (\<lambda>(k, a). asset_type a = ''GridConnection'') (assets s)))\<rparr>\<rparr>)"

text \<open>
  \<^verbatim>\<open>_run_ai_analysis\<close> hands the assets and the metrics to the analyzer and logs what
  comes back, all inside one \<^verbatim>\<open>try/except Exception\<close>; it assigns no field of the twin.
\<close>

definition run_ai_analysis :: "tick_env \<Rightarrow> twin \<Rightarrow> twin" where
  "run_ai_analysis env s = s"

text \<open>
  \<^verbatim>\<open>list.remove\<close> raises \<^verbatim>\<open>ValueError\<close> when the element is absent. The
  removal loop returns the list as it stands when the loop ends or is left by the exception,
  and the exception if there is one.
\<close>

fun remove_clients :: "client list \<Rightarrow> client list \<Rightarrow> client list \<times> error option" where
  "remove_clients [] cs = (cs, None)"
| "remove_clients (d # ds) cs =
     (if d \<in> set cs then remove_clients ds (remove1 d cs)
      else (cs, Some (ValueError ''list.remove(x): x not in list'')))"

text \<open>
  The sending loop of \<^verbatim>\<open>_broadcast_updates\<close>: the messages handed to the event
  loop, and the clients for which the body of the \<^verbatim>\<open>try\<close> raised (the list
  \<^verbatim>\<open>disconnected\<close>), both in the order of the client list. The body is
  \<^verbatim>\<open>asyncio.create_task(client.send(json.dumps(update_data)))\<close>. Calling
  \<^verbatim>\<open>client.send\<close> only builds a coroutine: a closed connection fails when the
  coroutine is awaited, outside this method. \<^verbatim>\<open>asyncio.create_task\<close> raises
  \<^verbatim>\<open>RuntimeError\<close> when the calling thread has no running event loop, and schedules
  the coroutine otherwise; \<open>running_loop\<close> tells which.
\<close>

fun send_all ::
  "bool \<Rightarrow> update_data \<Rightarrow> client list \<Rightarrow> (client \<times> update_data) list \<times> client list" where
  "send_all running_loop data [] = ([], [])"
| "send_all running_loop data (c # cs) =
     (let (sent, disconnected) = send_all running_loop data cs
      in if \<not> running_loop then (sent, c # disconnected) else ((c, data) # sent, disconnected))"

definition broadcast_updates ::
  "bool \<Rightarrow> tick_env \<Rightarrow> twin \<Rightarrow> twin \<times> (client \<times> update_data) list \<times> error option" where
  "broadcast_updates running_loop env s =
     (if websocket_clients s = [] then (s, [], None)
      else
        let data = \<lparr>msg_type = ''update'', msg_assets = assets s, msg_metrics = metrics s,
                     msg_timestamp = time_broadcast env\<rparr>;
            (sent, disconnected) = send_all running_loop data (websocket_clients s);
            (remaining, exc) = remove_clients disconnected (websocket_clients s)
        in (s\<lparr>websocket_clients := remaining\<rparr>, sent, exc))"

section \<open>The simulation loop\<close>

text \<open>
  One iteration of \<^verbatim>\<open>_simulation_loop\<close>: the state after it and the messages handed
  to the sockets. Every exception is caught by the loop's handler, which logs and sleeps.
  The loop is the target of the \<^verbatim>\<open>threading.Thread\<close> that
  \<^verbatim>\<open>start_simulation\<close> starts, and is called from nowhere else; no event loop is
  created or run in that thread, so the broadcast is made without a running event loop.
\<close>

definition loop_body :: "tick_env \<Rightarrow> twin \<Rightarrow> twin \<times> (client \<times> update_data) list" where
  "loop_body env s =
     (case solve env of
        None \<Rightarrow> (s, [])
      | Some res \<Rightarrow>
          let s1 = s\<lparr>opendss_results := res\<rparr>;
              s2 = update_asset_statuses env s1;
              s3 = update_substation_metrics env s2;
              s4 = run_ai_analysis env s3;
              (s5, sent, exc) = broadcast_updates False env s4
          in (s5, sent))"

text \<open>
  \<^verbatim>\<open>while self.is_running\<close>, run over the environments of the successive iterations.
\<close>

fun simulation_loop :: "tick_env list \<Rightarrow> twin \<Rightarrow> twin \<times> (client \<times> update_data) list" where
  "simulation_loop [] s = (s, [])"
| "simulation_loop (env # envs) s =
     (if is_running s then
        (let (s', sent) = loop_body env s;
             (s'', sent') = simulation_loop envs s'
         in (s'', sent @ sent'))
      else (s, []))"

section \<open>Operator commands and the fault ledger\<close>

text \<open>The \<^verbatim>\<open>parameters\<close> argument of \<^verbatim>\<open>control_asset\<close> is never read.\<close>

definition success :: "string \<Rightarrow> string \<Rightarrow> response" where
  "success aid action =
     \<lparr>resp_status = ''success'', resp_message = ''Asset '' @ aid @ '' '' @ action @ '' completed''\<rparr>"

definition control_asset :: "string \<Rightarrow> string \<Rightarrow> twin \<Rightarrow> error + (twin \<times> response)" where
  "control_asset aid action s =
     (case map_of (assets s) aid of
        None \<Rightarrow> Inl (ValueError (''Asset '' @ aid @ '' not found''))
      | Some asset \<Rightarrow>
          if action = ''open'' \<and> asset_type asset = ''CircuitBreaker'' then
            Inr (s\<lparr>assets := modify_asset aid (\<lambda>a. a\<lparr>status := ''open''\<rparr>) (assets s)\<rparr>,
                 success aid action)
          else if action = ''close'' \<and> asset_type asset = ''CircuitBreaker'' then
            Inr (s\<lparr>assets := modify_asset aid (\<lambda>a. a\<lparr>status := ''closed''\<rparr>) (assets s)\<rparr>,
                 success aid action)
          else if action = ''trip'' then
            Inr (s\<lparr>assets := modify_asset aid
                     (\<lambda>a. a\<lparr>status := ''fault'', health_score := max 0 (health_score a - 10)\<rparr>)
                     (assets s)\<rparr>,
                 success aid action)
          else if action = ''reset'' then
            Inr (s\<lparr>assets := modify_asset aid
                     (\<lambda>a. a\<lparr>status := ''healthy'', health_score := min 100 (health_score a + 20)\<rparr>)
                     (assets s)\<rparr>,
                 success aid action)
          else Inl (ValueError (''Invalid action '' @ action @ '' for asset type '' @ asset_type asset)))"

text \<open>
  \<^verbatim>\<open>run_fault_analysis\<close>; the three \<^verbatim>\<open>np.random.uniform\<close> draws and the clock
  are arguments.
\<close>

definition run_fault_analysis ::
  "real \<Rightarrow> real \<Rightarrow> real \<Rightarrow> string \<Rightarrow> string \<Rightarrow> string \<Rightarrow> twin \<Rightarrow> twin \<times> FaultAnalysis" where
  "run_fault_analysis impedance amps clearance now ftype flocation s =
     (let fault = \<lparr>fault_type = ftype, fault_location = flocation, fault_impedance = impedance,
                    fault_current = amps, protection_operation = True,
                    clearance_time = clearance, fault_timestamp = now\<rparr>
      in (s\<lparr>faults := faults s @ [fault],
             metrics := (metrics s)\<lparr>fault_count := fault_count (metrics s) + 1\<rparr>\<rparr>,
          fault))"

definition get_fault_history :: "twin \<Rightarrow> FaultAnalysis list" where
  "get_fault_history s = faults s"

section \<open>Notions used in the statements\<close>

definition health_ok :: "AssetStatus \<Rightarrow> bool" where
  "health_ok a = (0 \<le> health_score a \<and> health_score a \<le> 100)"

definition all_health_ok :: "asset_dict \<Rightarrow> bool" where
  "all_health_ok d = list_all (\<lambda>(k, a). health_ok a) d"

text \<open>
  The start-up manifest ties the asset classes that the tick handles by id to those ids;
  no operation adds an asset, renames one or changes its class.
\<close>

definition manifest_ok :: "asset_dict \<Rightarrow> bool" where
  "manifest_ok d =
     list_all (\<lambda>(k, a).
        (asset_type a = ''PowerTransformer'' \<longrightarrow> k \<in> set power_transformer_ids) \<and>
        (asset_type a = ''DistributionTransformer'' \<longrightarrow> k \<in> set distribution_transformer_ids) \<and>
        (asset_type a = ''CircuitBreaker'' \<longrightarrow> k \<in> set circuit_breaker_ids)) d"

text \<open>What \<^verbatim>\<open>_update_asset_statuses\<close> does to the asset stored under a given id.\<close>

definition tick_update :: "tick_env \<Rightarrow> dss_results \<Rightarrow> string \<Rightarrow> AssetStatus \<Rightarrow> AssetStatus" where
  "tick_update env res k =
     (if k = ''Grid400kV'' then update_grid env res
      else if k \<in> set power_transformer_ids then update_power_transformer env res k
      else if k \<in> set distribution_transformer_ids then update_distribution_transformer env res k
      else if k \<in> set circuit_breaker_ids then update_circuit_breaker env k
      else if k \<in> set industrial_load_ids then update_industrial_load env k
      else id)"

text \<open>The status that the specification derives from a temperature and two thresholds.\<close>

definition spec_status :: "real \<Rightarrow> real \<Rightarrow> real \<Rightarrow> string" where
  "spec_status fault_threshold warning_threshold t =
     (if t > fault_threshold then ''fault''
      else if t > warning_threshold then ''warning''
      else ''healthy'')"

text \<open>The action table of the specification: which action an asset class accepts.\<close>

definition spec_accepts :: "string \<Rightarrow> string \<Rightarrow> bool" where
  "spec_accepts ty action =
     (action = ''trip'' \<or> action = ''reset'' \<or>
      (ty = ''CircuitBreaker'' \<and> (action = ''open'' \<or> action = ''close'')))"

text \<open>The twin after a command: unchanged when the command raises.\<close>

definition after_control :: "string \<Rightarrow> string \<Rightarrow> twin \<Rightarrow> twin" where
  "after_control aid action s =
     (case control_asset aid action s of Inl e \<Rightarrow> s | Inr (s', r) \<Rightarrow> s')"

text \<open>\<^verbatim>\<open>websocket_endpoint\<close> appends an accepted connection to the client list.\<close>

definition connect :: "client \<Rightarrow> twin \<Rightarrow> twin" where
  "connect c s = s\<lparr>websocket_clients := websocket_clients s @ [c]\<rparr>"

section \<open>A concrete run\<close>

definition example_results :: dss_results where
  "example_results =
     \<lparr>converged = Some True, total_power_kw = Some 27000, total_power_kvar = Some 9000,
      total_losses_mw = Some 0.5, voltage_400kv = Some 400, voltage_220kv = Some 220,
      max_voltage_pu = Some 1.02, min_voltage_pu = Some 0.98\<rparr>"

definition example_env :: tick_env where
  "example_env =
     \<lparr>solve = Some example_results, dss_available = True,
      element_powers = (\<lambda>e. if e = ''Transformer.TX1_400_220'' then Some [283500, 0] else None),
      load_reading = (\<lambda>e. None), jitter = (\<lambda>i. 0), frequency_noise = 0,
      time_assets = ''t1'', time_metrics = ''t1'', time_broadcast = ''t1''\<rparr>"

definition example_twin :: twin where
  "example_twin =
     connect 3 (connect 2 (connect 1 (start_simulation (init_twin ''t0'' example_results))))"

text \<open>The concrete twin after two trip commands on the first industrial load.\<close>

definition twice_tripped_twin :: twin where
  "twice_tripped_twin =
     after_control ''IndustrialLoad1'' ''trip''
       (after_control ''IndustrialLoad1'' ''trip'' example_twin)"

text \<open>An iteration in which the solver raises, and a solve that did not converge.\<close>

definition failing_env :: tick_env where
  "failing_env = example_env\<lparr>solve := None\<rparr>"

definition unconverged_results :: dss_results where
  "unconverged_results = example_results\<lparr>converged := Some False\<rparr>"

section \<open>Properties of the dictionary helpers\<close>

lemma modify_asset_list_all:
  assumes "list_all (\<lambda>(k, a). P a) d" and "\<And>a. P a \<Longrightarrow> P (f a)"
  shows "list_all (\<lambda>(k, a). P a) (modify_asset i f d)"
  using assms by (induction d) auto

lemma map_of_modify_asset:
  "map_of (modify_asset i f d) k = (if k = i then map_option f (map_of d i) else map_of d k)"
  by (induction d) auto

lemma fold_modify_list_all:
  assumes "list_all (\<lambda>(k, a). P a) d" and "\<And>i a. P a \<Longrightarrow> P (f i a)"
  shows "list_all (\<lambda>(k, a). P a) (fold (\<lambda>i. modify_asset i (f i)) ids d)"
  using assms(1)
proof (induction ids arbitrary: d)
  case Nil
  then show ?case by simp
next
  case (Cons i ids)
  have "list_all (\<lambda>(k, a). P a) (modify_asset i (f i) d)"
    using Cons.prems assms(2) by (rule modify_asset_list_all)
  then show ?case using Cons.IH by simp
qed

lemma map_of_fold_modify_asset:
  "distinct ids \<Longrightarrow>
   map_of (fold (\<lambda>i. modify_asset i (f i)) ids d) k =
     (if k \<in> set ids then map_option (f k) (map_of d k) else map_of d k)"
proof (induction ids arbitrary: d)
  case Nil
  then show ?case by simp
next
  case (Cons i ids)
  then show ?case by (auto simp add: map_of_modify_asset)
qed

text \<open>No operation adds, removes or reorders a key.\<close>

lemma map_fst_modify_asset: "map fst (modify_asset i f d) = map fst d"
  by (induction d) auto

section \<open>The concrete run: its assets\<close>

lemma example_assets: "assets example_twin = setup_assets ''t0'' example_results"
  by (simp add: example_twin_def connect_def start_simulation_def init_twin_def)

lemma example_clients: "websocket_clients example_twin = [1, 2, 3]"
  by (simp add: example_twin_def connect_def start_simulation_def init_twin_def)

lemma example_running: "is_running example_twin"
  by (simp add: example_twin_def connect_def start_simulation_def init_twin_def)

lemma example_CB_1:
  "map_of (assets example_twin) ''CB_1'' =
     Some (new_asset ''CB_1'' ''CircuitBreaker'' ''healthy'' 0 0 0 30 ''t0'' 98)"
  by (simp add: example_assets setup_assets_def Let_def power_transformer_ids_def
      distribution_transformer_ids_def circuit_breaker_ids_def)

lemma example_TX1:
  "map_of (assets example_twin) ''TX1_400_220'' =
     Some (new_asset ''TX1_400_220'' ''PowerTransformer'' ''healthy'' 400 (16875 / 866) 13500
             (645 / 14) ''t0'' 95)"
  by (simp add: example_assets setup_assets_def Let_def power_transformer_ids_def
      example_results_def dict_get_def)

lemma example_manifest_ok: "manifest_ok (assets example_twin)"
  by (simp add: example_assets setup_assets_def Let_def manifest_ok_def new_asset_def
      power_transformer_ids_def distribution_transformer_ids_def circuit_breaker_ids_def)

section \<open>The health score stays within bounds\<close>

lemma health_ok_update_grid: "health_ok a \<Longrightarrow> health_ok (update_grid env res a)"
  by (simp add: health_ok_def update_grid_def Let_def)

lemma health_ok_update_power_transformer:
  "health_ok a \<Longrightarrow> health_ok (update_power_transformer env res i a)"
  by (auto simp add: health_ok_def update_power_transformer_def Let_def)

lemma health_ok_update_distribution_transformer:
  "health_ok a \<Longrightarrow> health_ok (update_distribution_transformer env res i a)"
  by (auto simp add: health_ok_def update_distribution_transformer_def Let_def)

lemma health_ok_update_circuit_breaker:
  "health_ok a \<Longrightarrow> health_ok (update_circuit_breaker env i a)"
  by (auto simp add: health_ok_def update_circuit_breaker_def Let_def)

lemma health_ok_update_industrial_load:
  "health_ok a \<Longrightarrow> health_ok (update_industrial_load env i a)"
  by (auto simp add: health_ok_def update_industrial_load_def Let_def split: prod.splits)

lemma update_asset_statuses_health:
  assumes "all_health_ok (assets s)"
  shows "all_health_ok (assets (update_asset_statuses env s))"
proof (cases "dss_available env")
  case False
  then show ?thesis using assms by (simp add: update_asset_statuses_def)
next
  case True
  let ?res = "opendss_results s"
  let ?d1 = "modify_asset ''Grid400kV'' (update_grid env ?res) (assets s)"
  let ?d2 = "fold (\<lambda>i. modify_asset i (update_power_transformer env ?res i)) power_transformer_ids ?d1"
  let ?d3 = "fold (\<lambda>i. modify_asset i (update_distribution_transformer env ?res i))
               distribution_transformer_ids ?d2"
  let ?d4 = "fold (\<lambda>i. modify_asset i (update_circuit_breaker env i)) circuit_breaker_ids ?d3"
  let ?d5 = "fold (\<lambda>i. modify_asset i (update_industrial_load env i)) industrial_load_ids ?d4"
  have 0: "list_all (\<lambda>(k, a). health_ok a) (assets s)"
    using assms by (simp add: all_health_ok_def)
  have 1: "list_all (\<lambda>(k, a). health_ok a) ?d1"
    using 0 by (rule modify_asset_list_all) (rule health_ok_update_grid)
  have 2: "list_all (\<lambda>(k, a). health_ok a) ?d2"
    using 1 by (rule fold_modify_list_all) (rule health_ok_update_power_transformer)
  have 3: "list_all (\<lambda>(k, a). health_ok a) ?d3"
    using 2 by (rule fold_modify_list_all) (rule health_ok_update_distribution_transformer)
  have 4: "list_all (\<lambda>(k, a). health_ok a) ?d4"
    using 3 by (rule fold_modify_list_all) (rule health_ok_update_circuit_breaker)
  have 5: "list_all (\<lambda>(k, a). health_ok a) ?d5"
    using 4 by (rule fold_modify_list_all) (rule health_ok_update_industrial_load)
  have "assets (update_asset_statuses env s) = ?d5"
    using True by (simp add: update_asset_statuses_def Let_def)
  then show ?thesis using 5 by (simp add: all_health_ok_def)
qed

lemma assets_update_substation_metrics [simp]:
  "assets (update_substation_metrics env s) = assets s"
  by (simp add: update_substation_metrics_def Let_def)

lemma assets_run_ai_analysis [simp]: "assets (run_ai_analysis env s) = assets s"
  by (simp add: run_ai_analysis_def)

lemma assets_broadcast_updates [simp]: "assets (fst (broadcast_updates b env s)) = assets s"
  by (simp add: broadcast_updates_def Let_def split: prod.splits)

lemma assets_loop_body:
  "assets (fst (loop_body env s)) =
     (case solve env of None \<Rightarrow> assets s
      | Some res \<Rightarrow> assets (update_asset_statuses env (s\<lparr>opendss_results := res\<rparr>)))"
proof (cases "solve env")
  case None
  then show ?thesis by (simp add: loop_body_def)
next
  case (Some res)
  let ?s4 = "run_ai_analysis env (update_substation_metrics env
               (update_asset_statuses env (s\<lparr>opendss_results := res\<rparr>)))"
  have "fst (loop_body env s) = fst (broadcast_updates False env ?s4)"
    using Some by (simp add: loop_body_def Let_def split: prod.splits)
  then show ?thesis using Some by simp
qed

lemma loop_body_health:
  assumes "all_health_ok (assets s)"
  shows "all_health_ok (assets (fst (loop_body env s)))"
proof (cases "solve env")
  case None
  then show ?thesis using assms by (simp add: assets_loop_body)
next
  case (Some res)
  have "all_health_ok (assets (s\<lparr>opendss_results := res\<rparr>))" using assms by simp
  then have "all_health_ok (assets (update_asset_statuses env (s\<lparr>opendss_results := res\<rparr>)))"
    by (rule update_asset_statuses_health)
  then show ?thesis using Some by (simp add: assets_loop_body)
qed

lemma fst_simulation_loop_Cons:
  "fst (simulation_loop (env # envs) s) =
     (if is_running s then fst (simulation_loop envs (fst (loop_body env s))) else s)"
  by (simp add: case_prod_beta)

lemma simulation_loop_health:
  "all_health_ok (assets s) \<Longrightarrow> all_health_ok (assets (fst (simulation_loop envs s)))"
proof (induction envs arbitrary: s)
  case Nil
  then show ?case by simp
next
  case (Cons env envs)
  show ?case
  proof (cases "is_running s")
    case False
    then show ?thesis using Cons.prems by simp
  next
    case True
    have "all_health_ok (assets (fst (loop_body env s)))"
      using Cons.prems by (rule loop_body_health)
    then have "all_health_ok (assets (fst (simulation_loop envs (fst (loop_body env s)))))"
      by (rule Cons.IH)
    then show ?thesis using True by (simp only: fst_simulation_loop_Cons if_True)
  qed
qed

lemma control_asset_health:
  assumes "all_health_ok (assets s)" and "control_asset aid action s = Inr (s', r)"
  shows "all_health_ok (assets s')"
proof -
  have ok: "list_all (\<lambda>(k, a). health_ok a) (assets s)"
    using assms(1) by (simp add: all_health_ok_def)
  have "list_all (\<lambda>(k, a). health_ok a) (assets s')"
    using assms(2) ok
    by (auto simp add: control_asset_def health_ok_def
          split: option.splits if_splits intro!: modify_asset_list_all)
  then show ?thesis by (simp add: all_health_ok_def)
qed

lemma setup_assets_health: "all_health_ok (setup_assets now res)"
  by (simp add: setup_assets_def all_health_ok_def health_ok_def new_asset_def Let_def
      power_transformer_ids_def distribution_transformer_ids_def circuit_breaker_ids_def)

text \<open>
  C1. Whenever every asset's health score lies in the interval from 0 to 100, it still does
  after the per-tick asset update, after a whole loop iteration, after any number of loop
  iterations, and after every operator command that succeeds (open, close, trip, reset).
\<close>

theorem health_score_stays_in_range:
  assumes "all_health_ok (assets s)"
  shows "all_health_ok (assets (update_asset_statuses env s))
       \<and> all_health_ok (assets (fst (loop_body env s)))
       \<and> all_health_ok (assets (fst (simulation_loop envs s)))
       \<and> (\<forall>s' r. control_asset aid action s = Inr (s', r) \<longrightarrow> all_health_ok (assets s'))"
  using assms update_asset_statuses_health loop_body_health simulation_loop_health
    control_asset_health by blast

theorem health_score_stays_in_range_witness:
  "all_health_ok (assets example_twin)
   \<and> all_health_ok (assets (update_asset_statuses example_env example_twin))
   \<and> all_health_ok (assets (fst (loop_body example_env example_twin)))
   \<and> all_health_ok (assets (fst (simulation_loop [example_env, example_env] example_twin)))
   \<and> (\<exists>s' r. control_asset ''CB_1'' ''trip'' example_twin = Inr (s', r)
         \<and> all_health_ok (assets s'))"
proof -
  have h: "all_health_ok (assets example_twin)"
    by (simp add: example_assets setup_assets_def example_results_def all_health_ok_def
        health_ok_def new_asset_def dict_get_def Let_def power_transformer_ids_def
        distribution_transformer_ids_def circuit_breaker_ids_def)
  obtain s' r where c: "control_asset ''CB_1'' ''trip'' example_twin = Inr (s', r)"
    by (simp add: control_asset_def example_CB_1)
  show ?thesis
    using h c health_score_stays_in_range [OF h, of example_env "[example_env, example_env]"
        "''CB_1''" "''trip''"]
    by blast
qed

section \<open>Lookup after the per-tick update\<close>

lemma map_of_update_asset_statuses:
  assumes "dss_available env"
  shows "map_of (assets (update_asset_statuses env s)) k =
           map_option (tick_update env (opendss_results s) k) (map_of (assets s) k)"
proof -
  have d: "distinct power_transformer_ids" "distinct distribution_transformer_ids"
    "distinct circuit_breaker_ids" "distinct industrial_load_ids"
    by (simp_all add: power_transformer_ids_def distribution_transformer_ids_def
        circuit_breaker_ids_def industrial_load_ids_def)
  have disj: "k \<in> set power_transformer_ids \<Longrightarrow> k \<noteq> ''Grid400kV''"
    "k \<in> set distribution_transformer_ids \<Longrightarrow> k \<noteq> ''Grid400kV'' \<and> k \<notin> set power_transformer_ids"
    "k \<in> set circuit_breaker_ids \<Longrightarrow>
       k \<noteq> ''Grid400kV'' \<and> k \<notin> set power_transformer_ids \<and> k \<notin> set distribution_transformer_ids"
    "k \<in> set industrial_load_ids \<Longrightarrow>
       k \<noteq> ''Grid400kV'' \<and> k \<notin> set power_transformer_ids \<and> k \<notin> set distribution_transformer_ids
       \<and> k \<notin> set circuit_breaker_ids"
    by (auto simp add: power_transformer_ids_def distribution_transformer_ids_def
        circuit_breaker_ids_def industrial_load_ids_def)
  show ?thesis
    using assms disj
    by (cases "map_of (assets s) k")
      (auto simp add: update_asset_statuses_def Let_def map_of_fold_modify_asset [OF d(1)]
        map_of_fold_modify_asset [OF d(2)] map_of_fold_modify_asset [OF d(3)]
        map_of_fold_modify_asset [OF d(4)] map_of_modify_asset tick_update_def)
qed

section \<open>Operator commands\<close>

lemma control_asset_trip:
  "map_of (assets s) aid = Some a \<Longrightarrow>
   control_asset aid ''trip'' s =
     Inr (s\<lparr>assets := modify_asset aid
               (\<lambda>a. a\<lparr>status := ''fault'', health_score := max 0 (health_score a - 10)\<rparr>)
               (assets s)\<rparr>,
          success aid ''trip'')"
  by (simp add: control_asset_def)

lemma control_asset_reset:
  "map_of (assets s) aid = Some a \<Longrightarrow>
   control_asset aid ''reset'' s =
     Inr (s\<lparr>assets := modify_asset aid
               (\<lambda>a. a\<lparr>status := ''healthy'', health_score := min 100 (health_score a + 20)\<rparr>)
               (assets s)\<rparr>,
          success aid ''reset'')"
  by (simp add: control_asset_def)

lemma after_control_reset:
  "map_of (assets s) aid = Some a \<Longrightarrow>
   after_control aid ''reset'' s =
     s\<lparr>assets := modify_asset aid
           (\<lambda>a. a\<lparr>status := ''healthy'', health_score := min 100 (health_score a + 20)\<rparr>)
           (assets s)\<rparr>"
  by (simp add: after_control_def control_asset_reset)

lemma after_control_trip:
  "map_of (assets s) aid = Some a \<Longrightarrow>
   after_control aid ''trip'' s =
     s\<lparr>assets := modify_asset aid
           (\<lambda>a. a\<lparr>status := ''fault'', health_score := max 0 (health_score a - 10)\<rparr>)
           (assets s)\<rparr>"
  by (simp add: after_control_def control_asset_trip)

lemma map_of_after_reset:
  "map_of (assets s) aid = Some a \<Longrightarrow>
   map_of (assets (after_control aid ''reset'' s)) aid =
     Some (a\<lparr>status := ''healthy'', health_score := min 100 (health_score a + 20)\<rparr>)"
  by (simp add: after_control_reset map_of_modify_asset)

lemma map_of_after_trip:
  "map_of (assets s) aid = Some a \<Longrightarrow>
   map_of (assets (after_control aid ''trip'' s)) aid =
     Some (a\<lparr>status := ''fault'', health_score := max 0 (health_score a - 10)\<rparr>)"
  by (simp add: after_control_trip map_of_modify_asset)

lemma example_IndustrialLoad1:
  "map_of (assets example_twin) ''IndustrialLoad1'' =
     Some (new_asset ''IndustrialLoad1'' ''IndustrialLoad'' ''healthy'' 33 (15000 / (33 * 1.732))
             15000 (35 + 15000 / 20000 * 10) ''t0'' 85)"
  by (simp add: example_assets setup_assets_def Let_def power_transformer_ids_def
      distribution_transformer_ids_def circuit_breaker_ids_def)

text \<open>
  C7. For an asset that exists, the trip command succeeds, sets its status to fault and
  lowers its health score by 10 but not below 0; every other asset is left as it was. In the
  concrete run the first power transformer, healthy with health score 95, ends with status
  fault and health score 85 after one trip.
\<close>

theorem trip_forces_fault_with_penalty:
  assumes "map_of (assets s) aid = Some a"
  shows "\<exists>s' r. control_asset aid ''trip'' s = Inr (s', r)
           \<and> resp_status r = ''success''
           \<and> map_of (assets s') aid =
               Some (a\<lparr>status := ''fault'', health_score := max 0 (health_score a - 10)\<rparr>)
           \<and> (\<forall>k. k \<noteq> aid \<longrightarrow> map_of (assets s') k = map_of (assets s) k)
           \<and> (health_score a \<ge> 10 \<longrightarrow>
                map_option health_score (map_of (assets s') aid) = Some (health_score a - 10))
           \<and> (health_score a \<le> 10 \<longrightarrow>
                map_option health_score (map_of (assets s') aid) = Some 0)"
  using assms
  by (simp add: control_asset_trip [OF assms] map_of_modify_asset success_def)

theorem trip_forces_fault_with_penalty_witness:
  "map_of (assets example_twin) ''TX1_400_220'' =
     Some (new_asset ''TX1_400_220'' ''PowerTransformer'' ''healthy'' 400 (16875 / 866) 13500
             (645 / 14) ''t0'' 95)
   \<and> (\<exists>s' r. control_asset ''TX1_400_220'' ''trip'' example_twin = Inr (s', r)
         \<and> map_option status (map_of (assets s') ''TX1_400_220'') = Some ''fault''
         \<and> map_option health_score (map_of (assets s') ''TX1_400_220'') = Some 85)"
proof -
  obtain s' r where
    "control_asset ''TX1_400_220'' ''trip'' example_twin = Inr (s', r)"
    "map_of (assets s') ''TX1_400_220'' =
       Some ((new_asset ''TX1_400_220'' ''PowerTransformer'' ''healthy'' 400 (16875 / 866) 13500
               (645 / 14) ''t0'' 95)
             \<lparr>status := ''fault'',
              health_score := max 0 (health_score (new_asset ''TX1_400_220'' ''PowerTransformer''
                 ''healthy'' 400 (16875 / 866) 13500 (645 / 14) ''t0'' 95) - 10)\<rparr>)"
    using trip_forces_fault_with_penalty [OF example_TX1] by blast
  then show ?thesis
    using example_TX1 by (simp add: new_asset_def)
qed

text \<open>
  C2, as stated: resetting twice gives the same health score as resetting once. It fails on
  the first industrial load after two trips (health score 65): one reset gives 85, two give
  100.
\<close>

theorem reset_twice_differs_counterexample:
  "map_option health_score (map_of (assets twice_tripped_twin) ''IndustrialLoad1'') = Some 65
   \<and> map_option health_score
       (map_of (assets (after_control ''IndustrialLoad1'' ''reset'' twice_tripped_twin))
          ''IndustrialLoad1'') = Some 85
   \<and> map_option health_score
       (map_of (assets (after_control ''IndustrialLoad1'' ''reset''
                  (after_control ''IndustrialLoad1'' ''reset'' twice_tripped_twin)))
          ''IndustrialLoad1'') = Some 100"
  unfolding twice_tripped_twin_def
  by (simp add: map_of_after_trip [OF map_of_after_trip [OF example_IndustrialLoad1]]
      map_of_after_reset [OF map_of_after_trip [OF map_of_after_trip [OF example_IndustrialLoad1]]]
      map_of_after_reset [OF map_of_after_reset [OF map_of_after_trip [OF map_of_after_trip
        [OF example_IndustrialLoad1]]]]
      new_asset_def)

text \<open>
  C2, amended: for an asset that exists with a health score between 0 and 100, one reset
  and two resets both leave the status healthy; one reset gives the health score
  \<open>min 100 (h + 20)\<close>, two give \<open>min 100 (h + 40)\<close>, and the two agree exactly when the
  starting score is at least 80.
\<close>

theorem reset_twice_adds_bonus_twice:
  assumes "map_of (assets s) aid = Some a"
    and "0 \<le> health_score a" and "health_score a \<le> 100"
  shows "\<exists>a1 a2.
           map_of (assets (after_control aid ''reset'' s)) aid = Some a1
         \<and> map_of (assets (after_control aid ''reset'' (after_control aid ''reset'' s))) aid = Some a2
         \<and> status a1 = ''healthy'' \<and> status a2 = ''healthy''
         \<and> health_score a1 = min 100 (health_score a + 20)
         \<and> health_score a2 = min 100 (health_score a + 40)
         \<and> (health_score a2 = health_score a1 \<longleftrightarrow> health_score a \<ge> 80)"
proof -
  let ?a1 = "a\<lparr>status := ''healthy'', health_score := min 100 (health_score a + 20)\<rparr>"
  let ?a2 = "?a1\<lparr>status := ''healthy'', health_score := min 100 (health_score ?a1 + 20)\<rparr>"
  have 1: "map_of (assets (after_control aid ''reset'' s)) aid = Some ?a1"
    using assms(1) by (rule map_of_after_reset)
  have 2: "map_of (assets (after_control aid ''reset'' (after_control aid ''reset'' s))) aid
             = Some ?a2"
    using 1 by (rule map_of_after_reset)
  have 3: "health_score ?a2 = min 100 (health_score a + 40)" by auto
  have 4: "health_score ?a2 = health_score ?a1 \<longleftrightarrow> health_score a \<ge> 80" by auto
  show ?thesis using 1 2 3 4 by simp
qed

theorem reset_twice_adds_bonus_twice_witness:
  "map_of (assets example_twin) ''IndustrialLoad1'' =
     Some (new_asset ''IndustrialLoad1'' ''IndustrialLoad'' ''healthy'' 33 (15000 / (33 * 1.732))
             15000 (35 + 15000 / 20000 * 10) ''t0'' 85)
   \<and> (\<exists>a1 a2.
         map_of (assets (after_control ''IndustrialLoad1'' ''reset'' example_twin))
           ''IndustrialLoad1'' = Some a1
       \<and> map_of (assets (after_control ''IndustrialLoad1'' ''reset''
                    (after_control ''IndustrialLoad1'' ''reset'' example_twin)))
           ''IndustrialLoad1'' = Some a2
       \<and> status a1 = ''healthy'' \<and> status a2 = ''healthy''
       \<and> health_score a1 = 100 \<and> health_score a2 = 100)"
proof -
  have h: "0 \<le> health_score (new_asset ''IndustrialLoad1'' ''IndustrialLoad'' ''healthy'' 33
             (15000 / (33 * 1.732)) 15000 (35 + 15000 / 20000 * 10) ''t0'' 85)
         \<and> health_score (new_asset ''IndustrialLoad1'' ''IndustrialLoad'' ''healthy'' 33
             (15000 / (33 * 1.732)) 15000 (35 + 15000 / 20000 * 10) ''t0'' 85) \<le> 100"
    by (simp add: new_asset_def)
  have "\<exists>a1 a2.
         map_of (assets (after_control ''IndustrialLoad1'' ''reset'' example_twin))
           ''IndustrialLoad1'' = Some a1
       \<and> map_of (assets (after_control ''IndustrialLoad1'' ''reset''
                    (after_control ''IndustrialLoad1'' ''reset'' example_twin)))
           ''IndustrialLoad1'' = Some a2
       \<and> status a1 = ''healthy'' \<and> status a2 = ''healthy''
       \<and> health_score a1 = 100 \<and> health_score a2 = 100"
    using reset_twice_adds_bonus_twice [OF example_IndustrialLoad1 conjunct1 [OF h] conjunct2 [OF h]]
    by (auto simp add: new_asset_def)
  then show ?thesis
    using example_IndustrialLoad1 by blast
qed

text \<open>
  C8. A command fails exactly when the asset id is unknown or the action is not accepted by
  the asset's class (trip and reset are accepted by every class, open and close by circuit
  breakers only). Both failures are a \<^verbatim>\<open>ValueError\<close>, told apart by their message; every
  other command returns the success response.
\<close>

theorem control_asset_errors_exactly:
  "((\<exists>e. control_asset aid action s = Inl e) \<longleftrightarrow>
      (map_of (assets s) aid = None
       \<or> (\<exists>a. map_of (assets s) aid = Some a \<and> \<not> spec_accepts (asset_type a) action)))
   \<and> (map_of (assets s) aid = None \<longrightarrow>
        control_asset aid action s = Inl (ValueError (''Asset '' @ aid @ '' not found'')))
   \<and> (\<forall>a. map_of (assets s) aid = Some a \<and> \<not> spec_accepts (asset_type a) action \<longrightarrow>
        control_asset aid action s =
          Inl (ValueError (''Invalid action '' @ action @ '' for asset type '' @ asset_type a)))
   \<and> (\<forall>a. map_of (assets s) aid = Some a \<and> spec_accepts (asset_type a) action \<longrightarrow>
        (\<exists>s'. control_asset aid action s = Inr (s', success aid action)))"
  by (cases "map_of (assets s) aid") (auto simp add: control_asset_def spec_accepts_def)

theorem control_asset_errors_exactly_witness:
  "control_asset ''CB_9'' ''open'' example_twin = Inl (ValueError ''Asset CB_9 not found'')
   \<and> control_asset ''TX1_400_220'' ''open'' example_twin =
       Inl (ValueError ''Invalid action open for asset type PowerTransformer'')
   \<and> control_asset ''CB_1'' ''inspect'' example_twin =
       Inl (ValueError ''Invalid action inspect for asset type CircuitBreaker'')
   \<and> (\<exists>s'. control_asset ''CB_1'' ''open'' example_twin = Inr (s', success ''CB_1'' ''open''))
   \<and> (\<exists>s'. control_asset ''TX1_400_220'' ''reset'' example_twin =
          Inr (s', success ''TX1_400_220'' ''reset''))"
proof -
  have none: "map_of (assets example_twin) ''CB_9'' = None"
    by (simp add: example_assets setup_assets_def Let_def power_transformer_ids_def
        distribution_transformer_ids_def circuit_breaker_ids_def)
  have 1: "control_asset ''CB_9'' ''open'' example_twin = Inl (ValueError ''Asset CB_9 not found'')"
    using control_asset_errors_exactly [of "''CB_9''" "''open''" example_twin] none by simp
  have 2: "control_asset ''TX1_400_220'' ''open'' example_twin =
       Inl (ValueError ''Invalid action open for asset type PowerTransformer'')"
    using control_asset_errors_exactly [of "''TX1_400_220''" "''open''" example_twin] example_TX1
    by (simp add: spec_accepts_def new_asset_def)
  have 3: "control_asset ''CB_1'' ''inspect'' example_twin =
       Inl (ValueError ''Invalid action inspect for asset type CircuitBreaker'')"
    using control_asset_errors_exactly [of "''CB_1''" "''inspect''" example_twin] example_CB_1
    by (simp add: spec_accepts_def new_asset_def)
  have 4: "\<exists>s'. control_asset ''CB_1'' ''open'' example_twin = Inr (s', success ''CB_1'' ''open'')"
    using control_asset_errors_exactly [of "''CB_1''" "''open''" example_twin] example_CB_1
    by (simp add: spec_accepts_def new_asset_def)
  have 5: "\<exists>s'. control_asset ''TX1_400_220'' ''reset'' example_twin =
          Inr (s', success ''TX1_400_220'' ''reset'')"
    using control_asset_errors_exactly [of "''TX1_400_220''" "''reset''" example_twin] example_TX1
    by (simp add: spec_accepts_def new_asset_def)
  show ?thesis using 1 2 3 4 5 by simp
qed

section \<open>The loop survives a failing solver\<close>

text \<open>
  C3. When the solver raises in an iteration, the iteration leaves the whole twin (assets,
  metrics, stored solver results, clients) as it was and sends nothing; the loop goes on with
  the remaining iterations from that same state, so the next iteration runs as if the failed
  one had not happened.
\<close>

theorem solver_failure_skips_tick:
  assumes "solve env = None"
  shows "loop_body env s = (s, [])
       \<and> simulation_loop (env # envs) s = simulation_loop envs s
       \<and> (is_running s \<longrightarrow> simulation_loop [env, env'] s = loop_body env' s)"
proof -
  have 1: "loop_body env s = (s, [])"
    using assms by (simp add: loop_body_def)
  have 2: "simulation_loop (env # envs) s = simulation_loop envs s"
    using 1 by (cases envs) (simp_all add: case_prod_beta)
  have 3: "is_running s \<longrightarrow> simulation_loop [env, env'] s = loop_body env' s"
    using 1 by (simp add: case_prod_beta)
  show ?thesis using 1 2 3 by simp
qed

theorem solver_failure_skips_tick_witness:
  "solve failing_env = None
   \<and> is_running example_twin
   \<and> loop_body failing_env example_twin = (example_twin, [])
   \<and> simulation_loop [failing_env, example_env] example_twin = loop_body example_env example_twin"
proof -
  have h: "solve failing_env = None" by (simp add: failing_env_def)
  show ?thesis
    using h example_running solver_failure_skips_tick [OF h, of example_twin "[example_env]" example_env]
    by simp
qed

section \<open>Grid connection flag\<close>

lemma metrics_broadcast_updates [simp]: "metrics (fst (broadcast_updates b env s)) = metrics s"
  by (simp add: broadcast_updates_def Let_def split: prod.splits)

lemma faults_broadcast_updates [simp]: "faults (fst (broadcast_updates b env s)) = faults s"
  by (simp add: broadcast_updates_def Let_def split: prod.splits)

lemma fst_loop_body_Some:
  "solve env = Some res \<Longrightarrow>
   fst (loop_body env s) =
     fst (broadcast_updates False env (run_ai_analysis env (update_substation_metrics env
            (update_asset_statuses env (s\<lparr>opendss_results := res\<rparr>)))))"
  by (simp add: loop_body_def Let_def split: prod.splits)

lemma opendss_results_update_asset_statuses [simp]:
  "opendss_results (update_asset_statuses env s) = opendss_results s"
  by (simp add: update_asset_statuses_def Let_def)

lemma faults_update_asset_statuses [simp]:
  "faults (update_asset_statuses env s) = faults s"
  by (simp add: update_asset_statuses_def Let_def)

lemma faults_update_substation_metrics [simp]:
  "faults (update_substation_metrics env s) = faults s"
  by (simp add: update_substation_metrics_def Let_def)

lemma grid_connection_update_substation_metrics:
  "grid_connection (metrics (update_substation_metrics env s)) \<longleftrightarrow>
     (converged (opendss_results s) = Some True
      \<and> (\<forall>(k, a) \<in> set (assets s). asset_type a = ''GridConnection'' \<longrightarrow> status a \<noteq> ''fault''))"
  by (cases "converged (opendss_results s)")
    (auto simp add: update_substation_metrics_def Let_def dict_get_def list_all_iff)

text \<open>
  C5. After the metrics are recomputed, the grid connection flag is true exactly when the
  stored solver result has \<open>converged = True\<close> and no asset of class GridConnection has
  status fault. A loop iteration whose solve did not converge (or reports nothing about
  convergence) ends with the flag false, whatever the assets' statuses.
\<close>

theorem grid_connected_iff_converged_and_no_grid_fault:
  "(grid_connection (metrics (update_substation_metrics env s)) \<longleftrightarrow>
      (converged (opendss_results s) = Some True
       \<and> (\<forall>(k, a) \<in> set (assets s). asset_type a = ''GridConnection'' \<longrightarrow> status a \<noteq> ''fault'')))
   \<and> (\<forall>res. solve env = Some res \<and> converged res \<noteq> Some True \<longrightarrow>
         \<not> grid_connection (metrics (fst (loop_body env s))))"
proof -
  have "\<not> grid_connection (metrics (fst (loop_body env s)))"
    if "solve env = Some res" and "converged res \<noteq> Some True" for res
    using that
    by (simp add: fst_loop_body_Some run_ai_analysis_def grid_connection_update_substation_metrics)
  then show ?thesis
    using grid_connection_update_substation_metrics by blast
qed

theorem grid_connected_iff_converged_and_no_grid_fault_witness:
  "list_all (\<lambda>(k, a). status a = ''healthy'') (assets example_twin)
   \<and> grid_connection (metrics (update_substation_metrics example_env example_twin))
   \<and> \<not> grid_connection (metrics (update_substation_metrics example_env
          (example_twin\<lparr>opendss_results := unconverged_results\<rparr>)))
   \<and> \<not> grid_connection (metrics (fst (loop_body (example_env\<lparr>solve := Some unconverged_results\<rparr>)
          example_twin)))"
proof -
  have h: "list_all (\<lambda>(k, a). status a = ''healthy'') (assets example_twin)"
    by (simp add: example_assets setup_assets_def Let_def new_asset_def example_results_def
        dict_get_def power_transformer_ids_def distribution_transformer_ids_def
        circuit_breaker_ids_def)
  then have nf: "\<forall>(k, a) \<in> set (assets example_twin).
      asset_type a = ''GridConnection'' \<longrightarrow> status a \<noteq> ''fault''"
    by (auto simp add: list_all_iff)
  have c: "converged (opendss_results example_twin) = Some True"
    by (simp add: example_twin_def connect_def start_simulation_def init_twin_def
        example_results_def)
  have u: "converged unconverged_results \<noteq> Some True"
    by (simp add: unconverged_results_def)
  have 1: "grid_connection (metrics (update_substation_metrics example_env example_twin))"
    using grid_connected_iff_converged_and_no_grid_fault [of example_env example_twin] c nf
    by blast
  have 2: "\<not> grid_connection (metrics (update_substation_metrics example_env
          (example_twin\<lparr>opendss_results := unconverged_results\<rparr>)))"
    using grid_connected_iff_converged_and_no_grid_fault
      [of example_env "example_twin\<lparr>opendss_results := unconverged_results\<rparr>"] u
    by simp
  have 3: "\<not> grid_connection (metrics (fst (loop_body (example_env\<lparr>solve := Some unconverged_results\<rparr>)
          example_twin)))"
    using grid_connected_iff_converged_and_no_grid_fault
      [of "example_env\<lparr>solve := Some unconverged_results\<rparr>" example_twin] u
    by simp
  show ?thesis using h 1 2 3 by simp
qed

section \<open>Fault ledger\<close>

lemma faults_loop_body: "faults (fst (loop_body env s)) = faults s"
proof (cases "solve env")
  case None
  then show ?thesis by (simp add: loop_body_def)
next
  case (Some res)
  then show ?thesis by (simp add: fst_loop_body_Some run_ai_analysis_def)
qed

lemma faults_control_asset:
  "control_asset aid action s = Inr (s', r) \<Longrightarrow> faults s' = faults s"
  by (auto simp add: control_asset_def split: option.splits if_splits)

text \<open>
  C9. A fault analysis appends exactly its new record at the end of the ledger and adds one
  to the fault count; the records already there stay, in order, as a prefix; the history read
  returns the whole ledger in order; a loop iteration and an operator command leave the ledger
  as it is.
\<close>

theorem fault_ledger_is_append_only:
  assumes "run_fault_analysis z i c now ty loc s = (s', f)"
  shows "faults s' = faults s @ [f]
       \<and> fault_count (metrics s') = fault_count (metrics s) + 1
       \<and> get_fault_history s' = get_fault_history s @ [f]
       \<and> take (length (get_fault_history s)) (get_fault_history s') = get_fault_history s
       \<and> fault_type f = ty \<and> fault_location f = loc
       \<and> get_fault_history (fst (loop_body env s')) = get_fault_history s'
       \<and> (\<forall>s'' r. control_asset aid action s' = Inr (s'', r) \<longrightarrow>
            get_fault_history s'' = get_fault_history s')"
  using assms
  by (auto simp add: run_fault_analysis_def Let_def get_fault_history_def faults_loop_body
      dest: faults_control_asset)

theorem fault_ledger_is_append_only_witness:
  "\<exists>s1 f1 s2 f2.
     run_fault_analysis 0.5 5000 0.2 ''t2'' ''three_phase'' ''Bus400kV_1'' example_twin = (s1, f1)
   \<and> run_fault_analysis 0.3 7000 0.1 ''t3'' ''line_to_ground'' ''Bus220kV_1'' s1 = (s2, f2)
   \<and> get_fault_history example_twin = []
   \<and> get_fault_history s1 = [f1]
   \<and> get_fault_history s2 = [f1, f2]
   \<and> fault_count (metrics s2) = 2
   \<and> get_fault_history (fst (loop_body example_env s2)) = [f1, f2]"
proof -
  obtain s1 f1 where 1:
    "run_fault_analysis 0.5 5000 0.2 ''t2'' ''three_phase'' ''Bus400kV_1'' example_twin = (s1, f1)"
    by (cases "run_fault_analysis 0.5 5000 0.2 ''t2'' ''three_phase'' ''Bus400kV_1'' example_twin")
  obtain s2 f2 where 2:
    "run_fault_analysis 0.3 7000 0.1 ''t3'' ''line_to_ground'' ''Bus220kV_1'' s1 = (s2, f2)"
    by (cases "run_fault_analysis 0.3 7000 0.1 ''t3'' ''line_to_ground'' ''Bus220kV_1'' s1")
  have 0: "get_fault_history example_twin = []" "fault_count (metrics example_twin) = 0"
    by (simp_all add: get_fault_history_def example_twin_def connect_def start_simulation_def
        init_twin_def)
  show ?thesis
    using 0 1 2 fault_ledger_is_append_only [OF 1, of example_env "''CB_1''" "''trip''"]
      fault_ledger_is_append_only [OF 2, of example_env "''CB_1''" "''trip''"]
    by simp
qed

section \<open>Broadcast\<close>

lemma send_all_without_loop: "send_all False data cs = ([], cs)"
  by (induction cs) auto

lemma send_all_with_loop: "send_all True data cs = (map (\<lambda>c. (c, data)) cs, [])"
  by (induction cs) auto

lemma remove_clients_filter_append:
  "\<forall>x \<in> set pre. \<not> P x \<Longrightarrow>
   remove_clients (filter P cs) (pre @ cs) = (pre @ filter (\<lambda>c. \<not> P c) cs, None)"
proof (induction cs arbitrary: pre)
  case Nil
  then show ?case by simp
next
  case (Cons c cs)
  show ?case
  proof (cases "P c")
    case True
    then have "c \<notin> set pre" using Cons.prems by blast
    then have "remove1 c (pre @ c # cs) = pre @ cs"
      by (simp add: remove1_append)
    then show ?thesis using True Cons.IH [OF Cons.prems] by simp
  next
    case False
    then have "\<forall>x \<in> set (pre @ [c]). \<not> P x" using Cons.prems by simp
    then have "remove_clients (filter P cs) ((pre @ [c]) @ cs)
                 = ((pre @ [c]) @ filter (\<lambda>c. \<not> P c) cs, None)"
      by (rule Cons.IH)
    then show ?thesis using False by simp
  qed
qed

lemma remove_clients_filter:
  "remove_clients (filter P cs) cs = (filter (\<lambda>c. \<not> P c) cs, None)"
  using remove_clients_filter_append [of "[]" P cs] by simp

lemma remove_clients_all: "remove_clients cs cs = ([], None)"
  using remove_clients_filter [of "\<lambda>c. True" cs] by simp

text \<open>
  With a running event loop every client is handed the same message and none is removed;
  no branch of the method removes one client and keeps another.
\<close>

lemma broadcast_updates_with_loop:
  "broadcast_updates True env s =
     (s,
      map (\<lambda>c. (c, \<lparr>msg_type = ''update'', msg_assets = assets s, msg_metrics = metrics s,
                     msg_timestamp = time_broadcast env\<rparr>)) (websocket_clients s),
      None)"
  by (simp add: broadcast_updates_def Let_def send_all_with_loop)

text \<open>Without one, every send raises, every client is removed and nothing is sent.\<close>

lemma broadcast_updates_without_loop:
  "broadcast_updates False env s = (s\<lparr>websocket_clients := []\<rparr>, [], None)"
  by (simp add: broadcast_updates_def Let_def send_all_without_loop remove_clients_all)

lemma loop_body_drops_clients:
  assumes "solve env = Some res"
  shows "websocket_clients (fst (loop_body env s)) = [] \<and> snd (loop_body env s) = []"
  using assms by (simp add: loop_body_def Let_def broadcast_updates_without_loop)

text \<open>
  C6. The claim: when delivery to one subscriber fails, only that one is removed and the
  others are still sent the snapshot. The code at three connected subscribers, none of them
  closed, in an iteration whose solve returned: the loop hands no message to anyone and ends
  with an empty client list.
\<close>

theorem broadcast_from_loop_drops_every_subscriber:
  "websocket_clients example_twin = [1, 2, 3]
   \<and> snd (loop_body example_env example_twin) = []
   \<and> websocket_clients (fst (loop_body example_env example_twin)) = []"
proof -
  have "solve example_env = Some example_results" by (simp add: example_env_def)
  then show ?thesis
    using example_clients loop_body_drops_clients [of example_env example_results example_twin]
    by simp
qed

section \<open>The manifest is kept\<close>

lemma modify_asset_list_all_keyed:
  assumes "list_all Q d" and "\<And>k a. Q (k, a) \<Longrightarrow> Q (k, f a)"
  shows "list_all Q (modify_asset i f d)"
  using assms by (induction d) auto

lemma fold_modify_list_all_keyed:
  assumes "list_all Q d" and "\<And>i k a. Q (k, a) \<Longrightarrow> Q (k, f i a)"
  shows "list_all Q (fold (\<lambda>i. modify_asset i (f i)) ids d)"
  using assms(1)
proof (induction ids arbitrary: d)
  case Nil
  then show ?case by simp
next
  case (Cons i ids)
  have "list_all Q (modify_asset i (f i) d)"
    using Cons.prems assms(2) by (rule modify_asset_list_all_keyed)
  then show ?case using Cons.IH by simp
qed

lemma asset_type_update_grid [simp]: "asset_type (update_grid env res a) = asset_type a"
  by (simp add: update_grid_def Let_def)

lemma asset_type_update_power_transformer [simp]:
  "asset_type (update_power_transformer env res i a) = asset_type a"
  by (simp add: update_power_transformer_def Let_def)

lemma asset_type_update_distribution_transformer [simp]:
  "asset_type (update_distribution_transformer env res i a) = asset_type a"
  by (simp add: update_distribution_transformer_def Let_def)

lemma asset_type_update_circuit_breaker [simp]:
  "asset_type (update_circuit_breaker env i a) = asset_type a"
  by (simp add: update_circuit_breaker_def Let_def)

lemma asset_type_update_industrial_load [simp]:
  "asset_type (update_industrial_load env i a) = asset_type a"
  by (simp add: update_industrial_load_def Let_def split: prod.splits)

lemma manifest_ok_setup_assets: "manifest_ok (setup_assets now res)"
  by (simp add: setup_assets_def Let_def manifest_ok_def new_asset_def
      power_transformer_ids_def distribution_transformer_ids_def circuit_breaker_ids_def)

lemma manifest_ok_update_asset_statuses:
  assumes "manifest_ok (assets s)"
  shows "manifest_ok (assets (update_asset_statuses env s))"
proof (cases "dss_available env")
  case False
  then show ?thesis using assms by (simp add: update_asset_statuses_def)
next
  case True
  show ?thesis
    using assms True
    unfolding manifest_ok_def update_asset_statuses_def Let_def
    by (auto intro!: fold_modify_list_all_keyed modify_asset_list_all_keyed)
qed

lemma manifest_ok_loop_body:
  "manifest_ok (assets s) \<Longrightarrow> manifest_ok (assets (fst (loop_body env s)))"
  using manifest_ok_update_asset_statuses [of "s\<lparr>opendss_results := res\<rparr>" env for res]
  by (cases "solve env") (simp_all add: assets_loop_body)

lemma manifest_ok_control_asset:
  assumes "manifest_ok (assets s)" and "control_asset aid action s = Inr (s', r)"
  shows "manifest_ok (assets s')"
  using assms unfolding manifest_ok_def
  by (auto simp add: control_asset_def split: option.splits if_splits
      intro!: modify_asset_list_all_keyed)

lemma manifest_okD:
  assumes "manifest_ok d" and "map_of d k = Some a"
  shows "(asset_type a = ''PowerTransformer'' \<longrightarrow> k \<in> set power_transformer_ids)
       \<and> (asset_type a = ''DistributionTransformer'' \<longrightarrow> k \<in> set distribution_transformer_ids)
       \<and> (asset_type a = ''CircuitBreaker'' \<longrightarrow> k \<in> set circuit_breaker_ids)"
proof -
  have "(k, a) \<in> set d" using assms(2) by (rule map_of_SomeD)
  then show ?thesis using assms(1) by (auto simp add: manifest_ok_def list_all_iff)
qed

lemma tick_update_power_transformer:
  "k \<in> set power_transformer_ids \<Longrightarrow> tick_update env res k = update_power_transformer env res k"
  by (auto simp add: tick_update_def power_transformer_ids_def)

lemma tick_update_distribution_transformer:
  "k \<in> set distribution_transformer_ids \<Longrightarrow>
   tick_update env res k = update_distribution_transformer env res k"
  by (auto simp add: tick_update_def power_transformer_ids_def distribution_transformer_ids_def)

lemma tick_update_circuit_breaker:
  "k \<in> set circuit_breaker_ids \<Longrightarrow> tick_update env res k = update_circuit_breaker env k"
  by (auto simp add: tick_update_def power_transformer_ids_def distribution_transformer_ids_def
      circuit_breaker_ids_def)

section \<open>Status derived in the per-tick update\<close>

lemma status_update_power_transformer:
  "status (update_power_transformer env res k a)
     = spec_status 85 70 (temperature (update_power_transformer env res k a))"
  by (simp add: update_power_transformer_def spec_status_def Let_def)

lemma temperature_update_power_transformer:
  "temperature (update_power_transformer env res k a)
     = 45 + min (power_value (update_power_transformer env res k a) / 1000 / 315) 1 * 35 + jitter env k"
  by (simp add: update_power_transformer_def Let_def)

lemma status_update_distribution_transformer:
  "status (update_distribution_transformer env res k a)
     = spec_status 90 75 (temperature (update_distribution_transformer env res k a))"
  by (simp add: update_distribution_transformer_def spec_status_def Let_def)

lemma temperature_update_distribution_transformer:
  "temperature (update_distribution_transformer env res k a)
     = 50 + min (power_value (update_distribution_transformer env res k a) / 1000 / 50) 1 * 30
       + jitter env k"
  by (simp add: update_distribution_transformer_def Let_def)

lemma status_update_circuit_breaker:
  "status a \<noteq> ''fault'' \<Longrightarrow> status (update_circuit_breaker env k a) = ''healthy''"
  by (simp add: update_circuit_breaker_def Let_def)

text \<open>
  C4. When the asset update runs (an OpenDSS engine is present), the status it leaves on a
  power transformer is fault when the new temperature exceeds 85, warning when it exceeds 70
  but not 85, healthy otherwise; on a distribution transformer the thresholds are 90 and 75.
  The health score plays no part. The new temperature is base plus clamped load factor times
  range plus jitter; the power transformer read at 283500 kW (load factor 0.9) with no jitter
  gets 76.5 degrees and status warning.
\<close>

theorem transformer_status_from_temperature:
  assumes "dss_available env" and "manifest_ok (assets s)" and "map_of (assets s) k = Some a"
  shows "\<exists>a'. map_of (assets (update_asset_statuses env s)) k = Some a'
         \<and> (asset_type a = ''PowerTransformer'' \<longrightarrow>
              status a' = spec_status 85 70 (temperature a')
            \<and> temperature a' = 45 + min (power_value a' / 1000 / 315) 1 * 35 + jitter env k)
         \<and> (asset_type a = ''DistributionTransformer'' \<longrightarrow>
              status a' = spec_status 90 75 (temperature a')
            \<and> temperature a' = 50 + min (power_value a' / 1000 / 50) 1 * 30 + jitter env k)"
proof -
  let ?a' = "tick_update env (opendss_results s) k a"
  have m: "map_of (assets (update_asset_statuses env s)) k = Some ?a'"
    using assms(1,3) by (simp add: map_of_update_asset_statuses)
  have ids: "(asset_type a = ''PowerTransformer'' \<longrightarrow> k \<in> set power_transformer_ids)
       \<and> (asset_type a = ''DistributionTransformer'' \<longrightarrow> k \<in> set distribution_transformer_ids)"
    using manifest_okD [OF assms(2,3)] by simp
  have p: "asset_type a = ''PowerTransformer'' \<longrightarrow>
              status ?a' = spec_status 85 70 (temperature ?a')
            \<and> temperature ?a' = 45 + min (power_value ?a' / 1000 / 315) 1 * 35 + jitter env k"
    using ids status_update_power_transformer temperature_update_power_transformer
    by (simp add: tick_update_power_transformer)
  have d: "asset_type a = ''DistributionTransformer'' \<longrightarrow>
              status ?a' = spec_status 90 75 (temperature ?a')
            \<and> temperature ?a' = 50 + min (power_value ?a' / 1000 / 50) 1 * 30 + jitter env k"
    using ids status_update_distribution_transformer temperature_update_distribution_transformer
    by (simp add: tick_update_distribution_transformer)
  show ?thesis using m p d by blast
qed

theorem transformer_status_from_temperature_witness:
  "dss_available example_env \<and> manifest_ok (assets example_twin)
   \<and> map_option asset_type (map_of (assets example_twin) ''TX1_400_220'') = Some ''PowerTransformer''
   \<and> (\<exists>a'. map_of (assets (update_asset_statuses example_env example_twin)) ''TX1_400_220'' = Some a'
         \<and> power_value a' / 1000 / 315 = 0.9
         \<and> temperature a' = 76.5
         \<and> status a' = ''warning'')"
proof -
  have h: "dss_available example_env" by (simp add: example_env_def)
  let ?a = "new_asset ''TX1_400_220'' ''PowerTransformer'' ''healthy'' 400 (16875 / 866) 13500
             (645 / 14) ''t0'' 95"
  obtain a' where a':
    "map_of (assets (update_asset_statuses example_env example_twin)) ''TX1_400_220'' = Some a'"
    "asset_type ?a = ''PowerTransformer'' \<longrightarrow>
       status a' = spec_status 85 70 (temperature a')
     \<and> temperature a' = 45 + min (power_value a' / 1000 / 315) 1 * 35 + jitter example_env ''TX1_400_220''"
    using transformer_status_from_temperature [OF h example_manifest_ok example_TX1] by blast
  have "a' = tick_update example_env (opendss_results example_twin) ''TX1_400_220'' ?a"
    using a'(1) example_TX1 by (simp add: map_of_update_asset_statuses [OF h])
  then have p: "power_value a' = 283500"
    by (simp add: tick_update_def update_power_transformer_def power_transformer_ids_def
        example_env_def Let_def new_asset_def)
  have t: "temperature a' = 76.5 \<and> status a' = ''warning''"
    using a'(2) p by (simp add: new_asset_def spec_status_def example_env_def)
  show ?thesis
    using h example_manifest_ok example_TX1 a'(1) p t by (simp add: new_asset_def)
qed

text \<open>
  C10. When the asset update runs (an OpenDSS engine is present), every circuit breaker
  whose status is not fault beforehand has status healthy afterwards, and so it has after a
  loop iteration whose solve returned. A breaker opened by the operator reads healthy after
  the next such iteration.
\<close>

theorem tick_rewrites_breaker_status_to_healthy:
  assumes "dss_available env" and "manifest_ok (assets s)" and "map_of (assets s) k = Some a"
    and "asset_type a = ''CircuitBreaker''" and "status a \<noteq> ''fault''"
  shows "(\<exists>a'. map_of (assets (update_asset_statuses env s)) k = Some a' \<and> status a' = ''healthy'')
       \<and> (solve env \<noteq> None \<longrightarrow>
            (\<exists>a'. map_of (assets (fst (loop_body env s))) k = Some a' \<and> status a' = ''healthy''))"
proof -
  have k: "k \<in> set circuit_breaker_ids"
    using manifest_okD [OF assms(2,3)] assms(4) by simp
  have 1: "map_of (assets (update_asset_statuses env s')) k
             = Some (update_circuit_breaker env k a)" if "assets s' = assets s" for s'
    using assms(1,3) k that
    by (simp add: map_of_update_asset_statuses tick_update_circuit_breaker)
  have 2: "status (update_circuit_breaker env k a) = ''healthy''"
    using assms(5) by (rule status_update_circuit_breaker)
  have 3: "map_of (assets (fst (loop_body env s))) k = Some (update_circuit_breaker env k a)"
    if "solve env = Some res" for res
    using that 1 [of "s\<lparr>opendss_results := res\<rparr>"] by (simp add: assets_loop_body)
  show ?thesis using 1 [of s] 2 3 by auto
qed

theorem tick_rewrites_breaker_status_to_healthy_witness:
  "dss_available example_env \<and> solve example_env \<noteq> None
   \<and> manifest_ok (assets (after_control ''CB_1'' ''open'' example_twin))
   \<and> map_option status (map_of (assets (after_control ''CB_1'' ''open'' example_twin)) ''CB_1'')
       = Some ''open''
   \<and> map_option asset_type (map_of (assets (after_control ''CB_1'' ''open'' example_twin)) ''CB_1'')
       = Some ''CircuitBreaker''
   \<and> map_option status
       (map_of (assets (fst (loop_body example_env (after_control ''CB_1'' ''open'' example_twin))))
          ''CB_1'') = Some ''healthy''"
proof -
  let ?s = "after_control ''CB_1'' ''open'' example_twin"
  let ?a = "(new_asset ''CB_1'' ''CircuitBreaker'' ''healthy'' 0 0 0 30 ''t0'' 98)\<lparr>status := ''open''\<rparr>"
  have s: "?s = example_twin\<lparr>assets := modify_asset ''CB_1'' (\<lambda>a. a\<lparr>status := ''open''\<rparr>)
              (assets example_twin)\<rparr>"
    by (simp add: after_control_def control_asset_def example_CB_1 new_asset_def)
  have h: "dss_available example_env" "solve example_env \<noteq> None"
    by (simp_all add: example_env_def)
  have m: "manifest_ok (assets ?s)"
    by (simp add: s example_assets setup_assets_def Let_def manifest_ok_def new_asset_def
        power_transformer_ids_def distribution_transformer_ids_def circuit_breaker_ids_def)
  have l: "map_of (assets ?s) ''CB_1'' = Some ?a"
    by (simp add: s map_of_modify_asset example_CB_1)
  have t: "asset_type ?a = ''CircuitBreaker''" "status ?a \<noteq> ''fault''"
    by (simp_all add: new_asset_def)
  show ?thesis
    using h m l t tick_rewrites_breaker_status_to_healthy [OF h(1) m l t] by auto
qed

end
